theory Spec2Isabelle
  imports Main "HOL-Library.Multiset"
begin

section \<open>The colour-scheme switch of guisehn.com\<close>

text \<open>
  The widget is \<^verbatim>\<open>src/components/DarkModeSwitch.tsx\<close>: a Preact function component
  with two pieces of hook state, one effect and one event handler. The browser objects it
  talks to (\<^verbatim>\<open>localStorage\<close>, the media query list, \<^verbatim>\<open>window.updateDarkMode\<close>,
  \<^verbatim>\<open>window.isDarkMode\<close>) are part of the page state below; every call that can throw
  in the browser returns a sum here, with the exception on the left.
\<close>

subsection \<open>The browser's key-value storage\<close>

text \<open>
  \<^verbatim>\<open>localStorage\<close> holds strings under string keys. Reading or writing throws a
  \<^verbatim>\<open>SecurityError\<close> when the user agent denies access to storage, and
  \<^verbatim>\<open>setItem\<close> throws a \<^verbatim>\<open>QuotaExceededError\<close> when the quota is used up.
  \<^verbatim>\<open>getItem\<close> returns \<^verbatim>\<open>null\<close> (here \<open>None\<close>) for a key that is not stored.
\<close>

datatype dom_exception = SecurityError | QuotaExceededError

record local_storage =
  items :: "string \<rightharpoonup> string"
  access_denied :: bool
  quota_full :: bool

definition getItem :: "string \<Rightarrow> local_storage \<Rightarrow> dom_exception + string option" where
  "getItem k st = (if access_denied st then Inl SecurityError else Inr (items st k))"

definition setItem :: "string \<Rightarrow> string \<Rightarrow> local_storage \<Rightarrow> dom_exception + local_storage" where
  "setItem k v st =
     (if access_denied st then Inl SecurityError
      else if quota_full st then Inl QuotaExceededError
      else Inr (st\<lparr>items := (items st)(k \<mapsto> v)\<rparr>))"

text \<open>Storage states by their content: working, denied by the user agent, out of quota.\<close>

definition working_storage :: "(string \<times> string) list \<Rightarrow> local_storage" where
  "working_storage kvs = \<lparr>items = map_of kvs, access_denied = False, quota_full = False\<rparr>"

definition denied_storage :: "(string \<times> string) list \<Rightarrow> local_storage" where
  "denied_storage kvs = \<lparr>items = map_of kvs, access_denied = True, quota_full = False\<rparr>"

definition full_storage :: "(string \<times> string) list \<Rightarrow> local_storage" where
  "full_storage kvs = \<lparr>items = map_of kvs, access_denied = False, quota_full = True\<rparr>"

subsection \<open>Preferences\<close>

text \<open>
  \<^verbatim>\<open>type Preference = "system" | "light" | "dark"\<close> (line 11). The type is erased at
  run time: the hook state is whatever string it was given, so the state is a
  \<^typ>\<open>string\<close> and the type is a predicate on it.
\<close>

definition is_Preference :: "string \<Rightarrow> bool" where
  "is_Preference s = (s = ''system'' \<or> s = ''light'' \<or> s = ''dark'')"

text \<open>
  The initialiser of the preference state (lines 21 to 23):
  \<^verbatim>\<open>() => localStorage.getItem("color_scheme") ?? "system"\<close>.
  The operator \<^verbatim>\<open>??\<close> replaces \<^verbatim>\<open>null\<close> only; there is no \<^verbatim>\<open>try\<close> around the
  read, so an exception of \<^verbatim>\<open>getItem\<close> leaves the initialiser.
\<close>

definition read_preference :: "local_storage \<Rightarrow> dom_exception + string" where
  "read_preference st =
     (case getItem ''color_scheme'' st of
        Inl e \<Rightarrow> Inl e
      | Inr v \<Rightarrow> Inr (case v of None \<Rightarrow> ''system'' | Some s \<Rightarrow> s))"

subsection \<open>The host page's two functions\<close>

datatype Preference = System | Light | Dark

text \<open>
  Modelled from the spec: \<^verbatim>\<open>resolveEffective\<close> is not a function of the component
  (which calls \<^verbatim>\<open>window.isDarkMode\<close>, a function the host page defines).
  The spec: ``when \<^verbatim>\<open>p != System\<close> returns \<^verbatim>\<open>p\<close> unchanged; when
  \<^verbatim>\<open>p == System\<close> returns \<^verbatim>\<open>osSignal\<close>''. The OS signal is one of \<open>Light\<close>,
  \<open>Dark\<close>.
\<close>

definition resolveEffective :: "Preference \<Rightarrow> Preference \<Rightarrow> Preference" where
  "resolveEffective p osSignal = (if p \<noteq> System then p else osSignal)"

definition is_scheme :: "Preference \<Rightarrow> bool" where
  "is_scheme s = (s = Light \<or> s = Dark)"

text \<open>
  Modelled from the spec: the Preference Store's \<^verbatim>\<open>get()\<close> as the spec words it, for
  the host page's functions, which the component declares and does not define: a missing
  or invalid stored value, and a failed read, give \<open>System\<close>.
\<close>

definition Preference_Store_get :: "local_storage \<Rightarrow> Preference" where
  "Preference_Store_get st =
     (case getItem ''color_scheme'' st of
        Inl e \<Rightarrow> System
      | Inr v \<Rightarrow> (if v = Some ''light'' then Light else if v = Some ''dark'' then Dark else System))"

definition osSignal :: "bool \<Rightarrow> Preference" where
  "osSignal matches = (if matches then Dark else Light)"

text \<open>
  Modelled from the spec: \<^verbatim>\<open>window.isDarkMode\<close> is declared in the component
  (\<^verbatim>\<open>isDarkMode: () => boolean\<close>, line 7) and defined by the host page. The spec: it
  ``reports whether the document is currently rendered in dark mode'', the rendered scheme
  being the effective scheme, ``derived from Preference and, when needed, the OS signal''.
  The second argument is \<^verbatim>\<open>matchMedia("(prefers-color-scheme: dark)").matches\<close>.
\<close>

definition isDarkMode :: "local_storage \<Rightarrow> bool \<Rightarrow> bool" where
  "isDarkMode st matches = (resolveEffective (Preference_Store_get st) (osSignal matches) = Dark)"

text \<open>
  \<^verbatim>\<open>window.updateDarkMode\<close> is declared in the component (line 6) and defined by the
  host page. What it does to the document is outside the component; the page state keeps a
  log of the calls the component makes to the host, and a call of
  \<^verbatim>\<open>updateDarkMode\<close> is logged with the value stored under the key at that moment,
  which is what the routine can observe.
\<close>

datatype host_call = SetItem string string | UpdateDarkMode "string option"

subsection \<open>The page state\<close>

datatype icon = Sun | Moon

text \<open>
  What an effect callback may return for the framework to call later: the only thing this
  component could undo is its listener.
\<close>

datatype cleanup = RemoveChangeListener

text \<open>
  The first five fields are the browser's: the storage, the current answer of the media
  query, the number of \<^verbatim>\<open>change\<close> listeners the component has added to it, the log
  of host calls that returned, and the log of every call of \<^verbatim>\<open>localStorage.setItem\<close>
  the component made, whether it returned or threw. The others are the component instance:
  whether it is mounted, the preference state (\<^verbatim>\<open>useState\<close>, line 21), the
  dependency array of the effect's last run (\<open>None\<close> before the first render), the
  cleanup the effect's last run returned, whether a state setter has scheduled a render,
  and what the last render produced (the icon of line 43, the \<^verbatim>\<open>value\<close> of the
  select of line 47).
\<close>

record page =
  localStorage :: local_storage
  prefers_dark :: bool
  change_listeners :: nat
  host_calls :: "host_call list"
  write_attempts :: "(string \<times> string) list"
  mounted :: bool
  preference :: string
  effect_args :: "unit list option"
  effect_cleanup :: "cleanup option"
  pending_render :: bool
  renders :: nat
  icon :: icon
  select_value :: string

subsection \<open>Hooks\<close>

text \<open>
  A state setter compares the new value with the current state and does nothing when they
  are identical (strings are compared by value); otherwise it stores the value and
  schedules a render. \<^verbatim>\<open>useRerender\<close> (lines 13 to 18) sets its state to a new
  \<^verbatim>\<open>Date\<close> object, which is never identical to the previous one, so
  \<^verbatim>\<open>rerender()\<close> always schedules a render and changes nothing else.
\<close>

definition setPreference :: "string \<Rightarrow> page \<Rightarrow> page" where
  "setPreference p pg =
     (if p = preference pg then pg else pg\<lparr>preference := p, pending_render := True\<rparr>)"

definition rerender :: "page \<Rightarrow> page" where
  "rerender pg = pg\<lparr>pending_render := True\<rparr>"

text \<open>
  An effect runs after a render when it has not run before or when its dependency array
  differs from the one of its last run.
\<close>

definition argsChanged :: "'a list option \<Rightarrow> 'a list \<Rightarrow> bool" where
  "argsChanged oldArgs newArgs = (case oldArgs of None \<Rightarrow> True | Some xs \<Rightarrow> xs \<noteq> newArgs)"

text \<open>
  The callback of the effect (lines 28 to 31): it adds one \<^verbatim>\<open>change\<close> listener to
  the media query list and returns nothing, so it hands the framework no cleanup.
\<close>

definition effect_callback :: "page \<Rightarrow> page \<times> cleanup option" where
  "effect_callback pg = (pg\<lparr>change_listeners := change_listeners pg + 1\<rparr>, None)"

text \<open>
  The framework calls the cleanup an effect has returned, if any, before the effect runs
  again and when the component unmounts.
\<close>

definition invoke_cleanup :: "page \<Rightarrow> page" where
  "invoke_cleanup pg =
     (case effect_cleanup pg of
        None \<Rightarrow> pg
      | Some RemoveChangeListener \<Rightarrow>
          pg\<lparr>change_listeners := change_listeners pg - 1, effect_cleanup := None\<rparr>)"

text \<open>The effect of lines 27 to 32, with the dependency array \<^verbatim>\<open>[]\<close>.\<close>

definition useEffect :: "page \<Rightarrow> page" where
  "useEffect pg =
     (if argsChanged (effect_args pg) []
      then (case effect_callback (invoke_cleanup pg) of
              (pg', c) \<Rightarrow> pg'\<lparr>effect_args := Some [], effect_cleanup := c\<rparr>)
      else pg)"

text \<open>
  One run of the function body (lines 40 to 57): the icon is chosen by
  \<^verbatim>\<open>window.isDarkMode()\<close>, the select shows the preference state.
\<close>

definition render :: "page \<Rightarrow> page" where
  "render pg =
     pg\<lparr>icon := (if isDarkMode (localStorage pg) (prefers_dark pg) then Moon else Sun),
        select_value := preference pg,
        renders := renders pg + 1,
        pending_render := False\<rparr>"

text \<open>A scheduled render happens when the component is still mounted.\<close>

definition flush :: "page \<Rightarrow> page" where
  "flush pg = (if pending_render pg \<and> mounted pg then useEffect (render pg) else pg)"

subsection \<open>Mounting, unmounting, and the two event sources\<close>

text \<open>
  Mounting: the preference state is initialised from storage (an exception of the
  initialiser aborts the mount), the body runs, then the effect.
\<close>

definition initial_page :: "local_storage \<Rightarrow> bool \<Rightarrow> string \<Rightarrow> page" where
  "initial_page st matches p =
     \<lparr>localStorage = st, prefers_dark = matches, change_listeners = 0, host_calls = [],
      write_attempts = [], mounted = True,
      preference = p, effect_args = None, effect_cleanup = None, pending_render = False,
      renders = 0, icon = Sun, select_value = p\<rparr>"

definition first_render :: "local_storage \<Rightarrow> bool \<Rightarrow> string \<Rightarrow> page" where
  "first_render st matches p = useEffect (render (initial_page st matches p))"

definition mount :: "local_storage \<Rightarrow> bool \<Rightarrow> dom_exception + page" where
  "mount st matches =
     (case read_preference st of
        Inl e \<Rightarrow> Inl e
      | Inr p \<Rightarrow> Inr (first_render st matches p))"

text \<open>Unmounting: the framework calls the effect's cleanup, if it returned one.\<close>

definition unmount :: "page \<Rightarrow> page" where
  "unmount pg = (invoke_cleanup pg)\<lparr>mounted := False\<rparr>"

text \<open>
  A call of \<^verbatim>\<open>localStorage.setItem\<close> by the component: the attempt is recorded, then
  the write happens or throws.
\<close>

definition localStorage_setItem :: "string \<Rightarrow> string \<Rightarrow> page \<Rightarrow> dom_exception option \<times> page" where
  "localStorage_setItem k v pg =
     (let pg1 = pg\<lparr>write_attempts := write_attempts pg @ [(k, v)]\<rparr> in
      case setItem k v (localStorage pg1) of
        Inl e \<Rightarrow> (Some e, pg1)
      | Inr st \<Rightarrow>
          (None, pg1\<lparr>localStorage := st, host_calls := host_calls pg1 @ [SetItem k v]\<rparr>))"

definition updateDarkMode :: "page \<Rightarrow> page" where
  "updateDarkMode pg =
     pg\<lparr>host_calls := host_calls pg @ [UpdateDarkMode (items (localStorage pg) ''color_scheme'')]\<rparr>"

text \<open>
  \<^verbatim>\<open>updatePreference\<close> (lines 34 to 38): three statements in this order. The write
  can throw; the function has no handler, so the exception leaves it after the state setter
  has run and before \<^verbatim>\<open>window.updateDarkMode()\<close>. The first component of the result
  is the exception, if any.
\<close>

definition updatePreference :: "string \<Rightarrow> page \<Rightarrow> dom_exception option \<times> page" where
  "updatePreference p pg =
     (let pg1 = setPreference p pg in
      case localStorage_setItem ''color_scheme'' p pg1 of
        (Some e, pg2) \<Rightarrow> (Some e, pg2)
      | (None, pg2) \<Rightarrow> (None, updateDarkMode pg2))"

text \<open>
  The select's \<^verbatim>\<open>onChange\<close> (line 50) calls \<^verbatim>\<open>updatePreference\<close> with the chosen
  value; the scheduled render follows, whether or not the handler threw.
\<close>

definition onChange :: "string \<Rightarrow> page \<Rightarrow> page" where
  "onChange v pg = flush (snd (updatePreference v pg))"

text \<open>
  A change of the OS signal: the media query's answer changes, every registered listener
  runs (each calls \<^verbatim>\<open>rerender()\<close>, lines 29 to 31), the scheduled render follows.
\<close>

definition media_change :: "bool \<Rightarrow> page \<Rightarrow> page" where
  "media_change matches pg =
     flush ((rerender ^^ change_listeners pg) (pg\<lparr>prefers_dark := matches\<rparr>))"

text \<open>
  The events of a page view. The control is part of the mounted component, so a selection
  reaches the component only while it is mounted; the media query belongs to the window and
  calls its listeners whether or not the component is still there.
\<close>

datatype event = Select string | OsChange bool | Unmount

fun step :: "page \<Rightarrow> event \<Rightarrow> page" where
  "step pg (Select v) = (if mounted pg then onChange v pg else pg)"
| "step pg (OsChange m) = media_change m pg"
| "step pg Unmount = (if mounted pg then unmount pg else pg)"

definition run :: "page \<Rightarrow> event list \<Rightarrow> page" where
  "run pg evs = foldl step pg evs"

fun is_OsChange :: "event \<Rightarrow> bool" where
  "is_OsChange (OsChange m) = True"
| "is_OsChange (Select v) = False"
| "is_OsChange Unmount = False"

definition os_changes :: "event list \<Rightarrow> nat" where
  "os_changes evs = length (filter is_OsChange evs)"

text \<open>
  The calls a transition has added to the logs, and the writes and restyles among the host
  calls.
\<close>

definition new_calls :: "page \<Rightarrow> page \<Rightarrow> host_call list" where
  "new_calls pg pg' = drop (length (host_calls pg)) (host_calls pg')"

definition new_attempts :: "page \<Rightarrow> page \<Rightarrow> (string \<times> string) list" where
  "new_attempts pg pg' = drop (length (write_attempts pg)) (write_attempts pg')"

fun is_write :: "host_call \<Rightarrow> bool" where
  "is_write (SetItem k v) = True"
| "is_write (UpdateDarkMode s) = False"

definition writes :: "host_call list \<Rightarrow> nat" where
  "writes cs = length (filter is_write cs)"

definition restyles :: "host_call list \<Rightarrow> nat" where
  "restyles cs = length (filter (\<lambda>c. \<not> is_write c) cs)"

subsection \<open>The index page's post list\<close>

text \<open>
  The index page (second document of \<^verbatim>\<open>src/pages/rss.xml.js\<close>, lines 21 to 23) sorts
  the blog collection with the comparator
  \<^verbatim>\<open>(a, b) => b.data.pubDate.valueOf() - a.data.pubDate.valueOf()\<close> and renders one
  list item per post, in that order. \<^verbatim>\<open>pubDate\<close> is a \<^verbatim>\<open>Date\<close>; its value is a
  whole number of milliseconds, an \<^typ>\<open>int\<close> here (the collection's schema admits valid
  dates only).
\<close>

record post =
  slug :: string
  title :: string
  description :: string
  pubDate :: int

definition compare_posts :: "post \<Rightarrow> post \<Rightarrow> int" where
  "compare_posts a b = pubDate b - pubDate a"

text \<open>
  \<^verbatim>\<open>Array.prototype.sort\<close> with a comparator is the engine's; its contract is a
  stable sort that puts \<open>a\<close> before \<open>b\<close> when the comparator is negative. A stable
  insertion sort stands for it.
\<close>

fun insert_sorted :: "('a \<Rightarrow> 'a \<Rightarrow> int) \<Rightarrow> 'a \<Rightarrow> 'a list \<Rightarrow> 'a list" where
  "insert_sorted cmp x [] = [x]"
| "insert_sorted cmp x (y # ys) =
     (if cmp x y \<le> 0 then x # y # ys else y # insert_sorted cmp x ys)"

definition array_sort :: "('a \<Rightarrow> 'a \<Rightarrow> int) \<Rightarrow> 'a list \<Rightarrow> 'a list" where
  "array_sort cmp xs = foldr (insert_sorted cmp) xs []"

definition index_posts :: "post list \<Rightarrow> post list" where
  "index_posts collection = array_sort compare_posts collection"

fun newest_first :: "post list \<Rightarrow> bool" where
  "newest_first [] = True"
| "newest_first [p] = True"
| "newest_first (p # q # ps) = (pubDate q \<le> pubDate p \<and> newest_first (q # ps))"

section \<open>Properties\<close>

subsection \<open>Helper facts\<close>

lemma read_preference_working:
  "\<not> access_denied st \<Longrightarrow>
     read_preference st = Inr (case items st ''color_scheme'' of None \<Rightarrow> ''system'' | Some s \<Rightarrow> s)"
  by (simp add: read_preference_def getItem_def)

lemma read_preference_denied:
  "access_denied st \<Longrightarrow> read_preference st = Inl SecurityError"
  by (simp add: read_preference_def getItem_def)

lemma setItem_Inr:
  "setItem k v st = Inr st' \<Longrightarrow>
     \<not> access_denied st \<and> \<not> quota_full st \<and> st' = st\<lparr>items := (items st)(k \<mapsto> v)\<rparr>"
  by (auto simp: setItem_def split: if_splits)

lemma setItem_working:
  "\<not> access_denied st \<Longrightarrow> \<not> quota_full st \<Longrightarrow>
     setItem k v st = Inr (st\<lparr>items := (items st)(k \<mapsto> v)\<rparr>)"
  by (simp add: setItem_def)

lemma setPreference_fields:
  "preference (setPreference v pg) = v"
  "localStorage (setPreference v pg) = localStorage pg"
  "write_attempts (setPreference v pg) = write_attempts pg"
  "host_calls (setPreference v pg) = host_calls pg"
  "change_listeners (setPreference v pg) = change_listeners pg"
  "effect_args (setPreference v pg) = effect_args pg"
  "effect_cleanup (setPreference v pg) = effect_cleanup pg"
  "mounted (setPreference v pg) = mounted pg"
  "renders (setPreference v pg) = renders pg"
  by (simp_all add: setPreference_def)

lemma updatePreference_written:
  assumes "setItem ''color_scheme'' v (localStorage pg) = Inr st"
  shows "updatePreference v pg =
           (None, (setPreference v pg)
                    \<lparr>localStorage := st,
                     host_calls := host_calls pg @
                       [SetItem ''color_scheme'' v, UpdateDarkMode (Some v)],
                     write_attempts := write_attempts pg @ [(''color_scheme'', v)]\<rparr>)"
proof -
  from setItem_Inr [OF assms] have "items st ''color_scheme'' = Some v"
    by simp
  with assms show ?thesis
    by (simp add: updatePreference_def localStorage_setItem_def updateDarkMode_def Let_def
        setPreference_fields)
qed

lemma updatePreference_failed:
  assumes "setItem ''color_scheme'' v (localStorage pg) = Inl e"
  shows "updatePreference v pg =
           (Some e, (setPreference v pg)
                      \<lparr>write_attempts := write_attempts pg @ [(''color_scheme'', v)]\<rparr>)"
  using assms
  by (simp add: updatePreference_def localStorage_setItem_def Let_def setPreference_fields)

lemma useEffect_frame:
  "localStorage (useEffect pg) = localStorage pg"
  "host_calls (useEffect pg) = host_calls pg"
  "write_attempts (useEffect pg) = write_attempts pg"
  "preference (useEffect pg) = preference pg"
  "prefers_dark (useEffect pg) = prefers_dark pg"
  "mounted (useEffect pg) = mounted pg"
  "renders (useEffect pg) = renders pg"
  "icon (useEffect pg) = icon pg"
  "select_value (useEffect pg) = select_value pg"
  "pending_render (useEffect pg) = pending_render pg"
  by (simp_all add: useEffect_def effect_callback_def invoke_cleanup_def
      split: option.splits cleanup.splits)

lemma useEffect_ran:
  assumes "effect_args pg = Some []"
  shows "useEffect pg = pg"
  using assms by (simp add: useEffect_def argsChanged_def)

lemma flush_frame:
  "localStorage (flush pg) = localStorage pg"
  "host_calls (flush pg) = host_calls pg"
  "write_attempts (flush pg) = write_attempts pg"
  "preference (flush pg) = preference pg"
  "prefers_dark (flush pg) = prefers_dark pg"
  "mounted (flush pg) = mounted pg"
  by (simp_all add: flush_def useEffect_frame render_def)

lemma flush_pending:
  assumes "pending_render pg" and "mounted pg"
  shows "select_value (flush pg) = preference pg"
    and "renders (flush pg) = renders pg + 1"
    and "icon (flush pg) = (if isDarkMode (localStorage pg) (prefers_dark pg) then Moon else Sun)"
    and "\<not> pending_render (flush pg)"
  using assms by (simp_all add: flush_def useEffect_frame render_def)

lemma flush_renders: "renders pg \<le> renders (flush pg)"
  by (simp add: flush_def useEffect_frame render_def)

lemma flush_mounted:
  assumes "effect_args pg = Some []"
  shows "change_listeners (flush pg) = change_listeners pg"
    and "effect_args (flush pg) = Some []"
    and "effect_cleanup (flush pg) = effect_cleanup pg"
proof -
  have "effect_args (render pg) = Some []"
    using assms by (simp add: render_def)
  then have "useEffect (render pg) = render pg"
    by (rule useEffect_ran)
  with assms show "change_listeners (flush pg) = change_listeners pg"
    and "effect_args (flush pg) = Some []"
    and "effect_cleanup (flush pg) = effect_cleanup pg"
    by (simp_all add: flush_def render_def)
qed

lemma new_calls_append:
  "host_calls pg' = host_calls pg @ cs \<Longrightarrow> new_calls pg pg' = cs"
  by (simp add: new_calls_def)

lemma new_calls_same:
  "host_calls pg' = host_calls pg \<Longrightarrow> new_calls pg pg' = []"
  by (simp add: new_calls_def)

lemma new_attempts_append:
  "write_attempts pg' = write_attempts pg @ cs \<Longrightarrow> new_attempts pg pg' = cs"
  by (simp add: new_attempts_def)


lemma rerender_funpow:
  "(rerender ^^ n) pg = (if n = 0 then pg else pg\<lparr>pending_render := True\<rparr>)"
  by (induction n) (simp_all add: rerender_def)

lemma onChange_written:
  assumes "setItem ''color_scheme'' v (localStorage pg) = Inr st"
  shows "localStorage (onChange v pg) = st"
    and "preference (onChange v pg) = v"
    and "write_attempts (onChange v pg) = write_attempts pg @ [(''color_scheme'', v)]"
    and "host_calls (onChange v pg) =
           host_calls pg @ [SetItem ''color_scheme'' v, UpdateDarkMode (Some v)]"
  by (simp_all add: onChange_def updatePreference_written [OF assms] flush_frame
      setPreference_fields)

lemma onChange_failed:
  assumes "setItem ''color_scheme'' v (localStorage pg) = Inl e"
  shows "localStorage (onChange v pg) = localStorage pg"
    and "preference (onChange v pg) = v"
    and "write_attempts (onChange v pg) = write_attempts pg @ [(''color_scheme'', v)]"
    and "host_calls (onChange v pg) = host_calls pg"
  by (simp_all add: onChange_def updatePreference_failed [OF assms] flush_frame
      setPreference_fields)

lemma onChange_always:
  "preference (onChange v pg) = v"
  "write_attempts (onChange v pg) = write_attempts pg @ [(''color_scheme'', v)]"
  "mounted (onChange v pg) = mounted pg"
  by (cases "setItem ''color_scheme'' v (localStorage pg)";
      simp add: onChange_def updatePreference_failed updatePreference_written flush_frame
        setPreference_fields)+

lemma onChange_mounted:
  assumes "effect_args pg = Some []"
  shows "change_listeners (onChange v pg) = change_listeners pg"
    and "effect_args (onChange v pg) = Some []"
    and "effect_cleanup (onChange v pg) = effect_cleanup pg"
proof -
  have "effect_args (snd (updatePreference v pg)) = Some []
      \<and> change_listeners (snd (updatePreference v pg)) = change_listeners pg
      \<and> effect_cleanup (snd (updatePreference v pg)) = effect_cleanup pg"
    using assms
    by (cases "setItem ''color_scheme'' v (localStorage pg)")
      (simp_all add: updatePreference_failed updatePreference_written setPreference_fields)
  then show "change_listeners (onChange v pg) = change_listeners pg"
    and "effect_args (onChange v pg) = Some []"
    and "effect_cleanup (onChange v pg) = effect_cleanup pg"
    by (simp_all add: onChange_def flush_mounted)
qed

lemma onChange_renders: "renders pg \<le> renders (onChange v pg)"
proof -
  have "renders (snd (updatePreference v pg)) = renders pg"
    by (cases "setItem ''color_scheme'' v (localStorage pg)")
      (simp_all add: updatePreference_failed updatePreference_written setPreference_fields)
  with flush_renders [of "snd (updatePreference v pg)"] show ?thesis
    by (simp add: onChange_def)
qed

lemma media_change_frame:
  "localStorage (media_change m pg) = localStorage pg"
  "host_calls (media_change m pg) = host_calls pg"
  "write_attempts (media_change m pg) = write_attempts pg"
  "preference (media_change m pg) = preference pg"
  "prefers_dark (media_change m pg) = m"
  "mounted (media_change m pg) = mounted pg"
  by (simp_all add: media_change_def flush_frame rerender_funpow)

lemma media_change_listening:
  assumes "0 < change_listeners pg" and "mounted pg"
  shows "renders (media_change m pg) = renders pg + 1"
    and "icon (media_change m pg) = (if isDarkMode (localStorage pg) m then Moon else Sun)"
    and "select_value (media_change m pg) = preference pg"
    and "\<not> pending_render (media_change m pg)"
  using assms by (simp_all add: media_change_def rerender_funpow flush_pending)

lemma media_change_mounted:
  assumes "effect_args pg = Some []"
  shows "change_listeners (media_change m pg) = change_listeners pg"
    and "effect_args (media_change m pg) = Some []"
    and "effect_cleanup (media_change m pg) = effect_cleanup pg"
  using assms by (simp_all add: media_change_def rerender_funpow flush_mounted)

lemma unmount_no_cleanup:
  assumes "effect_cleanup pg = None"
  shows "change_listeners (unmount pg) = change_listeners pg"
    and "effect_args (unmount pg) = effect_args pg"
    and "effect_cleanup (unmount pg) = None"
  using assms by (simp_all add: unmount_def invoke_cleanup_def)

lemma first_render_fields:
  "change_listeners (first_render st m p) = 1"
  "effect_args (first_render st m p) = Some []"
  "effect_cleanup (first_render st m p) = None"
  "renders (first_render st m p) = 1"
  "mounted (first_render st m p)"
  "\<not> pending_render (first_render st m p)"
  "preference (first_render st m p) = p"
  "localStorage (first_render st m p) = st"
  "host_calls (first_render st m p) = []"
  "write_attempts (first_render st m p) = []"
  "icon (first_render st m p) = (if isDarkMode st m then Moon else Sun)"
  by (simp_all add: first_render_def useEffect_def effect_callback_def invoke_cleanup_def
      render_def initial_page_def argsChanged_def)

lemma step_listening:
  assumes "effect_args pg = Some []" and "effect_cleanup pg = None"
    and "change_listeners pg = 1"
  shows "effect_args (step pg ev) = Some [] \<and> effect_cleanup (step pg ev) = None \<and>
         change_listeners (step pg ev) = 1"
  using assms
  by (cases ev) (simp_all add: onChange_mounted media_change_mounted unmount_no_cleanup)

lemma run_listening:
  "effect_args pg = Some [] \<Longrightarrow> effect_cleanup pg = None \<Longrightarrow> change_listeners pg = 1 \<Longrightarrow>
     effect_args (run pg evs) = Some [] \<and> effect_cleanup (run pg evs) = None \<and>
     change_listeners (run pg evs) = 1"
proof (induction evs arbitrary: pg)
  case Nil
  then show ?case by (simp add: run_def)
next
  case (Cons ev evs)
  from step_listening [OF Cons.prems, of ev]
  have s: "effect_args (step pg ev) = Some []" "effect_cleanup (step pg ev) = None"
    "change_listeners (step pg ev) = 1"
    by simp_all
  from Cons.IH [OF s] show ?case
    by (simp add: run_def)
qed

lemma step_renders:
  assumes "change_listeners pg = 1" and "mounted pg" and "ev \<noteq> Unmount"
  shows "mounted (step pg ev) \<and>
         renders pg + (if is_OsChange ev then 1 else 0) \<le> renders (step pg ev)"
proof (cases ev)
  case (Select v)
  with assms onChange_renders [of pg v] show ?thesis
    by (simp add: onChange_always)
next
  case (OsChange m)
  with assms show ?thesis
    by (simp add: media_change_frame media_change_listening(1))
next
  case Unmount
  with assms show ?thesis by simp
qed

lemma run_renders:
  "effect_args pg = Some [] \<Longrightarrow> effect_cleanup pg = None \<Longrightarrow> change_listeners pg = 1 \<Longrightarrow>
   mounted pg \<Longrightarrow> Unmount \<notin> set evs \<Longrightarrow>
     renders pg + os_changes evs \<le> renders (run pg evs)"
proof (induction evs arbitrary: pg)
  case Nil
  then show ?case by (simp add: run_def os_changes_def)
next
  case (Cons ev evs)
  from Cons.prems(5) have ne: "ev \<noteq> Unmount" and rest: "Unmount \<notin> set evs"
    by auto
  from step_listening [OF Cons.prems(1-3), of ev]
  have s: "effect_args (step pg ev) = Some []" "effect_cleanup (step pg ev) = None"
    "change_listeners (step pg ev) = 1"
    by simp_all
  from step_renders [OF Cons.prems(3,4) ne]
  have m: "mounted (step pg ev)"
    and r: "renders pg + (if is_OsChange ev then 1 else 0) \<le> renders (step pg ev)"
    by simp_all
  from Cons.IH [OF s m rest] r show ?case
    by (cases "is_OsChange ev") (simp_all add: run_def os_changes_def)
qed

lemma set_insert_sorted: "set (insert_sorted cmp x xs) = insert x (set xs)"
  by (induction xs) auto

lemma mset_insert_sorted: "mset (insert_sorted cmp x xs) = add_mset x (mset xs)"
  by (induction xs) auto

lemma sorted_wrt_insert_sorted:
  "sorted_wrt (\<lambda>a b. pubDate b \<le> pubDate a) xs \<Longrightarrow>
     sorted_wrt (\<lambda>a b. pubDate b \<le> pubDate a) (insert_sorted compare_posts x xs)"
  by (induction xs) (auto simp: set_insert_sorted compare_posts_def)

lemma sorted_wrt_index_posts:
  "sorted_wrt (\<lambda>a b. pubDate b \<le> pubDate a) (index_posts ps)"
  unfolding index_posts_def array_sort_def
  by (induction ps) (simp_all add: sorted_wrt_insert_sorted)

lemma newest_first_sorted_wrt:
  "sorted_wrt (\<lambda>a b. pubDate b \<le> pubDate a) ps \<Longrightarrow> newest_first ps"
  by (induction ps rule: newest_first.induct) simp_all

subsection \<open>Reading the preference\<close>

text \<open>
  Claim C1, as stated: for every stored value that is not one of the three preference
  strings, or is absent, the read at initialisation gives \<^verbatim>\<open>"system"\<close>. The code
  does not validate: with \<^verbatim>\<open>"sepia"\<close> stored under the key, the read gives
  \<^verbatim>\<open>"sepia"\<close>.
\<close>

theorem read_preference_invalid_counterexample:
  "\<not> is_Preference ''sepia'' \<and>
   read_preference (working_storage [(''color_scheme'', ''sepia'')]) = Inr ''sepia'' \<and>
   read_preference (working_storage [(''color_scheme'', ''sepia'')]) \<noteq> Inr ''system''"
  by (simp add: is_Preference_def read_preference_def getItem_def working_storage_def)

text \<open>
  Claim C1, amended: when storage can be read, an absent value gives \<^verbatim>\<open>"system"\<close>,
  and a stored string, valid or not, is returned as it is.
\<close>

theorem read_preference_absent_or_stored:
  "\<not> access_denied st \<Longrightarrow>
     (items st ''color_scheme'' = None \<longrightarrow> read_preference st = Inr ''system'') \<and>
     (\<forall>s. items st ''color_scheme'' = Some s \<longrightarrow> read_preference st = Inr s)"
  by (simp add: read_preference_working)

theorem read_preference_absent_or_stored_witness:
  "read_preference (working_storage []) = Inr ''system'' \<and>
   read_preference (working_storage [(''color_scheme'', ''light'')]) = Inr ''light''"
  using read_preference_absent_or_stored [of "working_storage []"]
    read_preference_absent_or_stored [of "working_storage [(''color_scheme'', ''light'')]"]
  by (simp add: working_storage_def)

text \<open>
  Claim C2, as stated: the read never raises, and a failed read gives \<^verbatim>\<open>"system"\<close>.
  The initialiser has no handler: when the user agent denies access to storage, the
  \<^verbatim>\<open>SecurityError\<close> of \<^verbatim>\<open>getItem\<close> leaves it, and the mount with it.
\<close>

theorem read_preference_denied_counterexample:
  "read_preference (denied_storage []) = Inl SecurityError \<and>
   read_preference (denied_storage []) \<noteq> Inr ''system'' \<and>
   mount (denied_storage []) False = Inl SecurityError"
  by (simp add: read_preference_def getItem_def denied_storage_def mount_def)

text \<open>
  Claim C2, amended: when storage can be read, the read returns the stored string, or
  \<^verbatim>\<open>"system"\<close> when nothing is stored; when the read fails, its exception is the
  outcome of the read, and no value is substituted.
\<close>

theorem read_preference_value_or_exception:
  "(\<not> access_denied st \<longrightarrow>
      read_preference st =
        Inr (case items st ''color_scheme'' of None \<Rightarrow> ''system'' | Some s \<Rightarrow> s)) \<and>
   (access_denied st \<longrightarrow> read_preference st = Inl SecurityError)"
  by (simp add: read_preference_working read_preference_denied)

theorem read_preference_value_or_exception_witness:
  "read_preference (working_storage [(''color_scheme'', ''dark'')]) = Inr ''dark'' \<and>
   read_preference (working_storage []) = Inr ''system'' \<and>
   read_preference (denied_storage [(''color_scheme'', ''dark'')]) = Inl SecurityError"
  using read_preference_value_or_exception [of "working_storage [(''color_scheme'', ''dark'')]"]
    read_preference_value_or_exception [of "working_storage []"]
    read_preference_value_or_exception [of "denied_storage [(''color_scheme'', ''dark'')]"]
  by (simp add: working_storage_def denied_storage_def)

subsection \<open>Writing, then reading\<close>

text \<open>
  Claim C3: for each of the three preference strings \<open>s\<close>, after
  \<^verbatim>\<open>updatePreference(s)\<close> has written it (the write returned), the read at
  initialisation returns \<open>s\<close>, and so a component mounted on that storage starts in
  state \<open>s\<close>.
\<close>

theorem updatePreference_then_read:
  assumes "is_Preference s"
    and "updatePreference s pg = (None, pg')"
  shows "read_preference (localStorage pg') = Inr s \<and>
         map_sum id preference (mount (localStorage pg') m) = Inr s"
proof -
  obtain st where w: "setItem ''color_scheme'' s (localStorage pg) = Inr st"
    using assms(2) by (cases "setItem ''color_scheme'' s (localStorage pg)")
      (simp_all add: updatePreference_failed)
  from updatePreference_written [OF w] assms(2) have st: "localStorage pg' = st"
    by auto
  from setItem_Inr [OF w] have "\<not> access_denied st" "items st ''color_scheme'' = Some s"
    by simp_all
  then have r: "read_preference st = Inr s"
    by (simp add: read_preference_working)
  then show ?thesis
    by (simp add: st mount_def first_render_fields)
qed

theorem updatePreference_then_read_witness:
  "is_Preference ''light'' \<and>
   fst (updatePreference ''light'' (first_render (working_storage []) False ''system'')) = None \<and>
   read_preference (localStorage
     (snd (updatePreference ''light'' (first_render (working_storage []) False ''system''))))
     = Inr ''light''"
proof -
  let ?pg = "first_render (working_storage []) False ''system''"
  have p: "is_Preference ''light''"
    by (simp add: is_Preference_def)
  have w: "setItem ''color_scheme'' ''light'' (localStorage ?pg)
             = Inr ((localStorage ?pg)\<lparr>items := (items (localStorage ?pg))(''color_scheme'' \<mapsto> ''light'')\<rparr>)"
    by (rule setItem_working)
      (simp_all add: first_render_fields working_storage_def)
  have u: "updatePreference ''light'' ?pg
             = (fst (updatePreference ''light'' ?pg), snd (updatePreference ''light'' ?pg))"
    by simp
  have n: "fst (updatePreference ''light'' ?pg) = None"
    by (simp add: updatePreference_written [OF w])
  from updatePreference_then_read [OF p, of ?pg "snd (updatePreference ''light'' ?pg)"] u n p
  show ?thesis by simp
qed

subsection \<open>Resolving the effective scheme\<close>

text \<open>
  Claim C4: for every OS signal \<open>os\<close> among \<open>Light\<close> and \<open>Dark\<close>,
  \<open>resolveEffective Light os = Light\<close>, \<open>resolveEffective Dark os = Dark\<close> and
  \<open>resolveEffective System os = os\<close>.
\<close>

theorem resolveEffective_cases:
  "is_scheme os \<Longrightarrow>
     resolveEffective Light os = Light \<and> resolveEffective Dark os = Dark \<and>
     resolveEffective System os = os"
  by (simp add: resolveEffective_def)

theorem resolveEffective_cases_witness:
  "is_scheme Dark \<and> resolveEffective Light Dark = Light \<and> resolveEffective Dark Dark = Dark \<and>
   resolveEffective System Dark = Dark"
proof -
  have h: "is_scheme Dark"
    by (simp add: is_scheme_def)
  from resolveEffective_cases [OF h] h show ?thesis by simp
qed

subsection \<open>A selection in the control\<close>

text \<open>
  Claim C5, as stated: on every selection the value is written to storage, the state
  changes and \<^verbatim>\<open>window.updateDarkMode\<close> is called exactly once. On a page mounted
  with storage out of quota, selecting \<^verbatim>\<open>"light"\<close> stores nothing and the restyle
  routine is not called: the write throws, and the call of the routine is the statement
  after it.
\<close>

theorem onChange_unwritten_counterexample:
  "mount (full_storage []) False = Inr (first_render (full_storage []) False ''system'') \<and>
   is_Preference ''light'' \<and>
   items (localStorage (onChange ''light'' (first_render (full_storage []) False ''system'')))
     ''color_scheme'' = None \<and>
   writes (new_calls (first_render (full_storage []) False ''system'')
     (onChange ''light'' (first_render (full_storage []) False ''system''))) = 0 \<and>
   restyles (new_calls (first_render (full_storage []) False ''system'')
     (onChange ''light'' (first_render (full_storage []) False ''system''))) = 0"
proof -
  let ?pg = "first_render (full_storage []) False ''system''"
  have m: "mount (full_storage []) False = Inr ?pg"
    by (simp add: mount_def read_preference_def getItem_def full_storage_def)
  have w: "setItem ''color_scheme'' ''light'' (localStorage ?pg) = Inl QuotaExceededError"
    by (simp add: setItem_def first_render_fields full_storage_def)
  have c: "new_calls ?pg (onChange ''light'' ?pg) = []"
    by (rule new_calls_same) (rule onChange_failed(4) [OF w])
  have s: "localStorage (onChange ''light'' ?pg) = full_storage []"
    by (simp add: onChange_failed(1) [OF w] first_render_fields)
  have i: "items (localStorage (onChange ''light'' ?pg)) ''color_scheme'' = None"
    unfolding s by (simp add: full_storage_def)
  show ?thesis
    by (simp add: m c i writes_def restyles_def is_Preference_def)
qed

text \<open>
  Claim C5, amended: on every selection of a preference value \<open>v\<close> in the control,
  \<^verbatim>\<open>localStorage.setItem\<close> is called once with the key \<^verbatim>\<open>color_scheme\<close> and
  \<open>v\<close>, and the preference state becomes \<open>v\<close>; when storage takes the write, \<open>v\<close> is
  stored under the key and \<^verbatim>\<open>window.updateDarkMode\<close> is called exactly once.
\<close>

theorem onChange_sets_state_and_restyles_when_written:
  assumes "is_Preference v"
  shows "preference (onChange v pg) = v \<and>
         new_attempts pg (onChange v pg) = [(''color_scheme'', v)] \<and>
         (\<not> access_denied (localStorage pg) \<and> \<not> quota_full (localStorage pg) \<longrightarrow>
            fst (updatePreference v pg) = None \<and>
            items (localStorage (onChange v pg)) ''color_scheme'' = Some v \<and>
            new_calls pg (onChange v pg)
              = [SetItem ''color_scheme'' v, UpdateDarkMode (Some v)] \<and>
            writes (new_calls pg (onChange v pg)) = 1 \<and>
            restyles (new_calls pg (onChange v pg)) = 1)"
proof -
  have a: "new_attempts pg (onChange v pg) = [(''color_scheme'', v)]"
    by (rule new_attempts_append) (rule onChange_always(2))
  have "fst (updatePreference v pg) = None \<and>
        items (localStorage (onChange v pg)) ''color_scheme'' = Some v \<and>
        new_calls pg (onChange v pg) = [SetItem ''color_scheme'' v, UpdateDarkMode (Some v)] \<and>
        writes (new_calls pg (onChange v pg)) = 1 \<and>
        restyles (new_calls pg (onChange v pg)) = 1"
    if ok: "\<not> access_denied (localStorage pg)" "\<not> quota_full (localStorage pg)"
  proof -
    let ?st = "(localStorage pg)\<lparr>items := (items (localStorage pg))(''color_scheme'' \<mapsto> v)\<rparr>"
    have w: "setItem ''color_scheme'' v (localStorage pg) = Inr ?st"
      using ok by (rule setItem_working)
    have c: "new_calls pg (onChange v pg)
               = [SetItem ''color_scheme'' v, UpdateDarkMode (Some v)]"
      by (rule new_calls_append) (rule onChange_written(4) [OF w])
    show ?thesis
      by (simp add: c writes_def restyles_def onChange_written(1) [OF w]
          updatePreference_written [OF w])
  qed
  with a show ?thesis
    by (simp add: onChange_always(1) writes_def restyles_def)
qed

theorem onChange_sets_state_and_restyles_when_written_witness:
  "is_Preference ''dark'' \<and>
   preference (onChange ''dark'' (first_render (working_storage []) False ''system'')) = ''dark'' \<and>
   new_attempts (first_render (working_storage []) False ''system'')
     (onChange ''dark'' (first_render (working_storage []) False ''system''))
     = [(''color_scheme'', ''dark'')] \<and>
   items (localStorage (onChange ''dark'' (first_render (working_storage []) False ''system'')))
     ''color_scheme'' = Some ''dark'' \<and>
   restyles (new_calls (first_render (working_storage []) False ''system'')
     (onChange ''dark'' (first_render (working_storage []) False ''system''))) = 1"
proof -
  let ?pg = "first_render (working_storage []) False ''system''"
  have p: "is_Preference ''dark''"
    by (simp add: is_Preference_def)
  have a: "\<not> access_denied (localStorage ?pg)" and q: "\<not> quota_full (localStorage ?pg)"
    by (simp_all add: first_render_fields working_storage_def)
  from onChange_sets_state_and_restyles_when_written [OF p, of ?pg] a q p show ?thesis
    by (simp add: restyles_def)
qed

text \<open>
  Claim C7, as stated: when the write fails, the state still changes and the restyle
  routine is still called. The write is the second statement of \<^verbatim>\<open>updatePreference\<close>
  and the restyle the third, with no handler between them: with storage out of quota, the
  state changes, the exception leaves the handler, and \<^verbatim>\<open>window.updateDarkMode\<close> is
  not called.
\<close>

theorem updatePreference_failed_write_counterexample:
  "fst (updatePreference ''dark'' (first_render (full_storage []) False ''system''))
     = Some QuotaExceededError \<and>
   preference (onChange ''dark'' (first_render (full_storage []) False ''system'')) = ''dark'' \<and>
   restyles (new_calls (first_render (full_storage []) False ''system'')
     (onChange ''dark'' (first_render (full_storage []) False ''system''))) = 0"
proof -
  let ?pg = "first_render (full_storage []) False ''system''"
  have w: "setItem ''color_scheme'' ''dark'' (localStorage ?pg) = Inl QuotaExceededError"
    by (simp add: setItem_def first_render_fields full_storage_def)
  have "new_calls ?pg (onChange ''dark'' ?pg) = []"
    by (rule new_calls_same) (rule onChange_failed(4) [OF w])
  then show ?thesis
    by (simp add: restyles_def updatePreference_failed [OF w] onChange_failed(2) [OF w])
qed

text \<open>
  Claim C7, amended: when the write fails, the preference state is the new value all the
  same (the setter runs before the write); \<^verbatim>\<open>localStorage.setItem\<close> has been called
  once and is not called again, storage is as it was, the exception of the write is the
  outcome of \<^verbatim>\<open>updatePreference\<close>, and the restyle routine is not called.
\<close>

theorem updatePreference_failed_write:
  assumes "setItem ''color_scheme'' v (localStorage pg) = Inl e"
  shows "fst (updatePreference v pg) = Some e \<and>
         preference (onChange v pg) = v \<and>
         new_attempts pg (onChange v pg) = [(''color_scheme'', v)] \<and>
         localStorage (onChange v pg) = localStorage pg \<and>
         new_calls pg (onChange v pg) = [] \<and>
         restyles (new_calls pg (onChange v pg)) = 0"
proof -
  have c: "new_calls pg (onChange v pg) = []"
    by (rule new_calls_same) (rule onChange_failed(4) [OF assms])
  have a: "new_attempts pg (onChange v pg) = [(''color_scheme'', v)]"
    by (rule new_attempts_append) (rule onChange_failed(3) [OF assms])
  show ?thesis
    by (simp add: a c restyles_def updatePreference_failed [OF assms]
        onChange_failed(1,2) [OF assms])
qed

theorem updatePreference_failed_write_witness:
  "setItem ''color_scheme'' ''light'' (localStorage (first_render (denied_storage []) True ''dark''))
     = Inl SecurityError \<and>
   fst (updatePreference ''light'' (first_render (denied_storage []) True ''dark''))
     = Some SecurityError \<and>
   preference (onChange ''light'' (first_render (denied_storage []) True ''dark'')) = ''light'' \<and>
   new_attempts (first_render (denied_storage []) True ''dark'')
     (onChange ''light'' (first_render (denied_storage []) True ''dark''))
     = [(''color_scheme'', ''light'')] \<and>
   new_calls (first_render (denied_storage []) True ''dark'')
     (onChange ''light'' (first_render (denied_storage []) True ''dark'')) = []"
proof -
  let ?pg = "first_render (denied_storage []) True ''dark''"
  have w: "setItem ''color_scheme'' ''light'' (localStorage ?pg) = Inl SecurityError"
    by (simp add: setItem_def first_render_fields denied_storage_def)
  from updatePreference_failed_write [OF w] w show ?thesis
    by simp
qed

text \<open>
  Claim C8: in \<^verbatim>\<open>updatePreference\<close> the write to storage is complete before
  \<^verbatim>\<open>window.updateDarkMode\<close> is called, and the routine finds the new value stored:
  the calls the function adds to the log are the write of the new value followed by the
  restyle observing it, or none at all when the write threw.
\<close>

theorem updatePreference_write_before_restyle:
  "(fst (updatePreference v pg) = None \<and>
    new_calls pg (snd (updatePreference v pg))
      = [SetItem ''color_scheme'' v, UpdateDarkMode (Some v)] \<and>
    items (localStorage (snd (updatePreference v pg))) ''color_scheme'' = Some v) \<or>
   (fst (updatePreference v pg) \<noteq> None \<and>
    new_calls pg (snd (updatePreference v pg)) = [])"
proof (cases "setItem ''color_scheme'' v (localStorage pg)")
  case (Inl e)
  then show ?thesis
    by (simp add: updatePreference_failed new_calls_def setPreference_fields)
next
  case (Inr st)
  from setItem_Inr [OF Inr] have "items st ''color_scheme'' = Some v"
    by simp
  then show ?thesis
    by (simp add: updatePreference_written [OF Inr] new_calls_def setPreference_fields)
qed

theorem updatePreference_write_before_restyle_witness:
  "new_calls (first_render (working_storage [(''color_scheme'', ''light'')]) False ''light'')
     (snd (updatePreference ''dark''
       (first_render (working_storage [(''color_scheme'', ''light'')]) False ''light'')))
     = [SetItem ''color_scheme'' ''dark'', UpdateDarkMode (Some ''dark'')]"
proof -
  let ?pg = "first_render (working_storage [(''color_scheme'', ''light'')]) False ''light''"
  have "setItem ''color_scheme'' ''dark'' (localStorage ?pg)
          = Inr ((localStorage ?pg)\<lparr>items := (items (localStorage ?pg))(''color_scheme'' \<mapsto> ''dark'')\<rparr>)"
    by (rule setItem_working)
      (simp_all add: first_render_fields working_storage_def)
  then have "fst (updatePreference ''dark'' ?pg) = None"
    by (simp add: updatePreference_written)
  with updatePreference_write_before_restyle [of "''dark''" ?pg] show ?thesis
    by simp
qed

subsection \<open>A change of the OS signal\<close>




subsection \<open>The listener on the media query\<close>

text \<open>
  Claim C9: mounting the component registers one \<^verbatim>\<open>change\<close> listener on the media
  query and leaves the framework no cleanup for it. After any sequence of selections, OS
  signal changes and an unmount there is still exactly that one listener and still no
  cleanup; while the component is mounted, each OS signal change renders it again, so the
  renders grow and the listeners do not.
\<close>

theorem change_listener_registered_once:
  assumes "mount st m = Inr pg"
  shows "change_listeners pg = 1 \<and> effect_cleanup pg = None \<and>
         change_listeners (run pg evs) = 1 \<and> effect_cleanup (run pg evs) = None \<and>
         (Unmount \<notin> set evs \<longrightarrow> 1 + os_changes evs \<le> renders (run pg evs))"
proof -
  obtain p where pg: "pg = first_render st m p"
    using assms by (auto simp: mount_def split: sum.splits)
  have i: "effect_args pg = Some []" "effect_cleanup pg = None" "change_listeners pg = 1"
    and u: "mounted pg" and r: "renders pg = 1"
    by (simp_all add: pg first_render_fields)
  from run_listening [OF i, of evs] run_renders [OF i u, of evs] i r show ?thesis
    by simp
qed

theorem change_listener_registered_once_witness:
  "mount (working_storage []) False = Inr (first_render (working_storage []) False ''system'') \<and>
   change_listeners (run (first_render (working_storage []) False ''system'')
     [OsChange True, Select ''light'', Select ''light'', Unmount, OsChange False]) = 1 \<and>
   3 \<le> renders (run (first_render (working_storage []) False ''system'')
     [OsChange True, OsChange False])"
proof -
  have m: "mount (working_storage []) False
             = Inr (first_render (working_storage []) False ''system'')"
    by (simp add: mount_def read_preference_def getItem_def working_storage_def)
  from change_listener_registered_once
    [OF m, of "[OsChange True, Select ''light'', Select ''light'', Unmount, OsChange False]"]
    change_listener_registered_once [OF m, of "[OsChange True, OsChange False]"] m
  show ?thesis by (simp add: os_changes_def)
qed

subsection \<open>The order of the post list\<close>

text \<open>
  Claim C10: for every collection of posts, the index page lists all of them, newest first:
  of two adjacent posts in the list, the first has a publication date greater than or equal
  to the second's.
\<close>

theorem index_posts_newest_first:
  "newest_first (index_posts ps) \<and> mset (index_posts ps) = mset ps"
proof
  show "newest_first (index_posts ps)"
    by (rule newest_first_sorted_wrt) (rule sorted_wrt_index_posts)
  show "mset (index_posts ps) = mset ps"
    unfolding index_posts_def array_sort_def
    by (induction ps) (simp_all add: mset_insert_sorted)
qed

end
